theory Spec2Isabelle
  imports Main "HOL-Library.Word"
begin

section \<open>Symbol unique ids (compiler/translator/SymbolUniqueId.h)\<close>

text \<open>
  The C++ type \<open>int\<close> is a 32-bit two's complement integer: a \<open>32 word\<close> whose value
  is read with \<open>sint\<close>. \<open>size_t\<close> is an unsigned integer whose width depends on the
  platform, so the hash below is polymorphic in the width of its result.
\<close>

type_synonym cint = "32 word"

text \<open>\<open>class TSymbolUniqueId\<close>: its only data member is \<open>int mId\<close>.\<close>

record TSymbolUniqueId =
  mId :: cint

text \<open>\<open>constexpr TSymbolUniqueId(int staticId) : mId(staticId) {}\<close>\<close>

definition TSymbolUniqueId_static :: "cint \<Rightarrow> TSymbolUniqueId" where
  "TSymbolUniqueId_static staticId = \<lparr>mId = staticId\<rparr>"

text \<open>\<open>constexpr TSymbolUniqueId(const TSymbolUniqueId &) = default;\<close>\<close>

definition TSymbolUniqueId_copy :: "TSymbolUniqueId \<Rightarrow> TSymbolUniqueId" where
  "TSymbolUniqueId_copy other = \<lparr>mId = mId other\<rparr>"

text \<open>
  \<open>TSymbolUniqueId &operator=(const TSymbolUniqueId &) = default;\<close> The object assigned
  to is the first argument; the result is its new value.
\<close>

definition operator_assign :: "TSymbolUniqueId \<Rightarrow> TSymbolUniqueId \<Rightarrow> TSymbolUniqueId" where
  "operator_assign this other = this\<lparr>mId := mId other\<rparr>"

text \<open>\<open>bool operator==(const TSymbolUniqueId &other) const { return mId == other.mId; }\<close>\<close>

definition operator_eq :: "TSymbolUniqueId \<Rightarrow> TSymbolUniqueId \<Rightarrow> bool" where
  "operator_eq this other = (mId this = mId other)"

text \<open>\<open>bool operator!=(const TSymbolUniqueId &other) const { return !(*this == other); }\<close>\<close>

definition operator_ne :: "TSymbolUniqueId \<Rightarrow> TSymbolUniqueId \<Rightarrow> bool" where
  "operator_ne this other = (\<not> operator_eq this other)"

text \<open>\<open>constexpr int get() const { return mId; }\<close>\<close>

definition get :: "TSymbolUniqueId \<Rightarrow> cint" where
  "get this = mId this"

text \<open>\<open>static constexpr TSymbolUniqueId kInvalid() { return TSymbolUniqueId(-1); }\<close>\<close>

definition kInvalid :: TSymbolUniqueId where
  "kInvalid = TSymbolUniqueId_static (- 1)"

text \<open>
  \<open>size_t operator()(const sh::TSymbolUniqueId &key) const { return key.get(); }\<close>
  The \<open>return\<close> converts the signed \<open>int\<close> to the unsigned \<open>size_t\<close>: \<open>scast\<close> is that
  conversion (sign extension, then reduction to the width of the result).
\<close>

definition std_hash :: "TSymbolUniqueId \<Rightarrow> 'w::len word" where
  "std_hash key = scast (get key)"


section \<open>The WGSL program prelude\<close>

text \<open>\<open>struct WGSLWrapperFunction { ImmutableString prefix; ImmutableString suffix; };\<close>\<close>

record WGSLWrapperFunction =
  prefix :: string
  suffix :: string

text \<open>
  Modelled from the spec: the container \<open>TSet\<close>, which the header uses and does not
  define. By the spec each operation kind "owns its own deduplication set keyed by operand
  type", iterated in "insertion order": a list without repetition, to which a new element
  is added at the end. The operand type \<open>TType\<close> is declared elsewhere too; the model is
  polymorphic in it, and its structural equality is the equality of HOL.
\<close>

type_synonym 't TSet = "'t list"

definition TSet_insert :: "'t \<Rightarrow> 't TSet \<Rightarrow> 't TSet" where
  "TSet_insert x s = (if x \<in> set s then s else s @ [x])"

text \<open>The data members of \<open>class WGSLProgramPrelude\<close>, in the order of their declaration.\<close>

record 't WGSLProgramPrelude =
  mPreIncrementedTypes :: "'t TSet"
  mPreDecrementedTypes :: "'t TSet"
  mPostIncrementedTypes :: "'t TSet"
  mPostDecrementedTypes :: "'t TSet"

text \<open>The implicit default constructor: four empty sets.\<close>

definition emptyPrelude :: "'t WGSLProgramPrelude" where
  "emptyPrelude = \<lparr>mPreIncrementedTypes = [], mPreDecrementedTypes = [],
     mPostIncrementedTypes = [], mPostDecrementedTypes = []\<rparr>"

text \<open>
  Modelled from the spec: the operation kinds of the bridge, "pre-increment,
  pre-decrement, post-increment, post-decrement", one for each of the four request
  methods of the class.
\<close>

datatype WrapperKind = PreIncrement | PreDecrement | PostIncrement | PostDecrement

text \<open>
  Modelled from the spec: the text generation, which is not in the sources. The fragment
  pair of a call site is a parameter of the model, a function of the operation kind and
  the operand type.
\<close>

type_synonym 't fragments = "WrapperKind \<Rightarrow> 't \<Rightarrow> WGSLWrapperFunction"

text \<open>
  Modelled from the spec: the bodies of \<open>preIncrement\<close>, \<open>preDecrement\<close>,
  \<open>postIncrement\<close> and \<open>postDecrement\<close>, which the header declares and does not define.
  By the spec a request "looks up operandType in the deduplication set for operationKind;
  if absent, inserts it and generates/returns the fragment pair; if already present,
  returns the same fragment pair". Each method returns the fragment pair and the prelude
  after the call.
\<close>

definition preIncrement ::
  "'t fragments \<Rightarrow> 't \<Rightarrow> 't WGSLProgramPrelude \<Rightarrow> WGSLWrapperFunction \<times> 't WGSLProgramPrelude" where
  "preIncrement frag preIncrementedType p =
     (frag PreIncrement preIncrementedType,
      p\<lparr>mPreIncrementedTypes := TSet_insert preIncrementedType (mPreIncrementedTypes p)\<rparr>)"

text \<open>Modelled from the spec: the body of \<open>preDecrement\<close>, as for \<open>preIncrement\<close>.\<close>

definition preDecrement ::
  "'t fragments \<Rightarrow> 't \<Rightarrow> 't WGSLProgramPrelude \<Rightarrow> WGSLWrapperFunction \<times> 't WGSLProgramPrelude" where
  "preDecrement frag preDecrementedType p =
     (frag PreDecrement preDecrementedType,
      p\<lparr>mPreDecrementedTypes := TSet_insert preDecrementedType (mPreDecrementedTypes p)\<rparr>)"

text \<open>Modelled from the spec: the body of \<open>postIncrement\<close>, as for \<open>preIncrement\<close>.\<close>

definition postIncrement ::
  "'t fragments \<Rightarrow> 't \<Rightarrow> 't WGSLProgramPrelude \<Rightarrow> WGSLWrapperFunction \<times> 't WGSLProgramPrelude" where
  "postIncrement frag postIncrementedType p =
     (frag PostIncrement postIncrementedType,
      p\<lparr>mPostIncrementedTypes := TSet_insert postIncrementedType (mPostIncrementedTypes p)\<rparr>)"

text \<open>Modelled from the spec: the body of \<open>postDecrement\<close>, as for \<open>preIncrement\<close>.\<close>

definition postDecrement ::
  "'t fragments \<Rightarrow> 't \<Rightarrow> 't WGSLProgramPrelude \<Rightarrow> WGSLWrapperFunction \<times> 't WGSLProgramPrelude" where
  "postDecrement frag postDecrementedType p =
     (frag PostDecrement postDecrementedType,
      p\<lparr>mPostDecrementedTypes := TSet_insert postDecrementedType (mPostDecrementedTypes p)\<rparr>)"

text \<open>
  Modelled from the spec: \<open>requestWrapper(operationKind, operandType)\<close>, the spec's name for
  a request; the class has one method for each kind.
\<close>

fun requestWrapper ::
  "'t fragments \<Rightarrow> WrapperKind \<Rightarrow> 't \<Rightarrow> 't WGSLProgramPrelude
     \<Rightarrow> WGSLWrapperFunction \<times> 't WGSLProgramPrelude" where
  "requestWrapper frag PreIncrement ty p = preIncrement frag ty p"
| "requestWrapper frag PreDecrement ty p = preDecrement frag ty p"
| "requestWrapper frag PostIncrement ty p = postIncrement frag ty p"
| "requestWrapper frag PostDecrement ty p = postDecrement frag ty p"

text \<open>A translation that makes a sequence of requests, one after the other.\<close>

fun requestAll ::
  "'t fragments \<Rightarrow> (WrapperKind \<times> 't) list \<Rightarrow> 't WGSLProgramPrelude \<Rightarrow> 't WGSLProgramPrelude" where
  "requestAll frag [] p = p"
| "requestAll frag ((k, ty) # reqs) p = requestAll frag reqs (snd (requestWrapper frag k ty p))"

text \<open>
  Modelled from the spec: the body of \<open>outputPrelude\<close>, which the header declares and does
  not define. By the spec it "iterates every (operationKind, operandType) pair ever
  registered" and "writes the full generated function source for each into the supplied
  output sink". \<open>preludeFunctions\<close> is the sequence of the pairs visited; the sink is the
  list of the function definitions written to it, and the source text of a definition is
  a parameter of the model.
\<close>

definition preludeFunctions :: "'t WGSLProgramPrelude \<Rightarrow> (WrapperKind \<times> 't) list" where
  "preludeFunctions p =
     map (Pair PreIncrement) (mPreIncrementedTypes p)
     @ map (Pair PreDecrement) (mPreDecrementedTypes p)
     @ map (Pair PostIncrement) (mPostIncrementedTypes p)
     @ map (Pair PostDecrement) (mPostDecrementedTypes p)"

definition outputPrelude ::
  "(WrapperKind \<Rightarrow> 't \<Rightarrow> string) \<Rightarrow> 't WGSLProgramPrelude \<Rightarrow> string list \<Rightarrow> string list" where
  "outputPrelude source p sink = sink @ map (\<lambda>(k, ty). source k ty) (preludeFunctions p)"

text \<open>The deduplication set of an operation kind.\<close>

fun registry :: "WrapperKind \<Rightarrow> 't WGSLProgramPrelude \<Rightarrow> 't TSet" where
  "registry PreIncrement p = mPreIncrementedTypes p"
| "registry PreDecrement p = mPreDecrementedTypes p"
| "registry PostIncrement p = mPostIncrementedTypes p"
| "registry PostDecrement p = mPostDecrementedTypes p"


section \<open>Properties of the id value type\<close>

lemma sint_get_inject: "sint (get a) = sint (get b) \<longleftrightarrow> mId a = mId b"
  by (auto simp: get_def intro: signed_word_eqI)




text \<open>
  C9. Equality, inequality, hashing and copying of \<open>TSymbolUniqueId\<close> depend on the stored
  integer only: \<open>a == b\<close> holds exactly when \<open>a.get() == b.get()\<close> (as integers),
  \<open>a != b\<close> is the negation of \<open>a == b\<close>, equal ids have equal hashes (at every width
  of \<open>size_t\<close>), and a copy of \<open>a\<close>, or any id \<open>c\<close> after \<open>c = a\<close>, is equal to \<open>a\<close> and
  has the same \<open>get()\<close>.
\<close>

theorem id_value_semantics:
  "(operator_eq a b \<longleftrightarrow> sint (get a) = sint (get b))
   \<and> (operator_ne a b \<longleftrightarrow> \<not> operator_eq a b)
   \<and> (operator_eq a b \<longrightarrow> (std_hash a :: 'w::len word) = std_hash b)
   \<and> operator_eq (TSymbolUniqueId_copy a) a
   \<and> get (TSymbolUniqueId_copy a) = get a
   \<and> operator_eq (operator_assign c a) a
   \<and> get (operator_assign c a) = get a"
proof -
  have eq: "operator_eq a b \<longleftrightarrow> sint (get a) = sint (get b)"
    by (simp add: operator_eq_def sint_get_inject)
  have ne: "operator_ne a b \<longleftrightarrow> \<not> operator_eq a b"
    by (simp add: operator_ne_def)
  have hash: "operator_eq a b \<longrightarrow> (std_hash a :: 'w word) = std_hash b"
    by (simp add: operator_eq_def std_hash_def get_def)
  have copy: "operator_eq (TSymbolUniqueId_copy a) a \<and> get (TSymbolUniqueId_copy a) = get a"
    by (simp add: operator_eq_def TSymbolUniqueId_copy_def get_def)
  have assign: "operator_eq (operator_assign c a) a \<and> get (operator_assign c a) = get a"
    by (simp add: operator_eq_def operator_assign_def get_def)
  from eq ne hash copy assign show ?thesis by blast
qed

theorem id_value_semantics_witness:
  "operator_eq (TSymbolUniqueId_static 7) (TSymbolUniqueId_copy (TSymbolUniqueId_static 7))
   \<and> (std_hash (TSymbolUniqueId_static 7) :: 64 word)
       = std_hash (TSymbolUniqueId_copy (TSymbolUniqueId_static 7))
   \<and> \<not> operator_ne (TSymbolUniqueId_static 7) (TSymbolUniqueId_copy (TSymbolUniqueId_static 7))"
  using id_value_semantics [of "TSymbolUniqueId_static 7"
      "TSymbolUniqueId_copy (TSymbolUniqueId_static 7)" kInvalid, where 'w = 64]
  by (simp add: operator_eq_def TSymbolUniqueId_copy_def TSymbolUniqueId_static_def get_def)



section \<open>Properties of the prelude\<close>

lemmas request_defs = preIncrement_def preDecrement_def postIncrement_def postDecrement_def

lemma TSet_insert_idem: "TSet_insert x (TSet_insert x s) = TSet_insert x s"
  by (simp add: TSet_insert_def)

lemma distinct_TSet_insert: "distinct s \<Longrightarrow> distinct (TSet_insert x s)"
  by (simp add: TSet_insert_def)

lemma set_TSet_insert: "set (TSet_insert x s) = insert x (set s)"
  by (auto simp: TSet_insert_def)

lemma fst_requestWrapper: "fst (requestWrapper frag k ty p) = frag k ty"
  by (cases k) (simp_all add: request_defs)

lemma registry_requestWrapper:
  "registry k' (snd (requestWrapper frag k ty p)) =
     (if k' = k then TSet_insert ty (registry k p) else registry k' p)"
  by (cases k; cases k') (simp_all add: request_defs)

lemma requestWrapper_idem:
  "snd (requestWrapper frag k ty (snd (requestWrapper frag k ty p)))
     = snd (requestWrapper frag k ty p)"
  by (cases k) (simp_all add: request_defs TSet_insert_idem)

lemma registry_emptyPrelude: "registry k emptyPrelude = []"
  by (cases k) (simp_all add: emptyPrelude_def)

lemma requestAll_append:
  "requestAll frag (xs @ ys) p = requestAll frag ys (requestAll frag xs p)"
  by (induction xs arbitrary: p) auto

text \<open>No request puts a type twice into a set.\<close>

lemma distinct_requestAll:
  "(\<And>k. distinct (registry k p)) \<Longrightarrow> distinct (registry k (requestAll frag reqs p))"
proof (induction reqs arbitrary: p)
  case Nil
  then show ?case by simp
next
  case (Cons r reqs)
  obtain k' ty where r: "r = (k', ty)" by (cases r)
  have "\<And>j. distinct (registry j (snd (requestWrapper frag k' ty p)))"
    using Cons.prems by (simp add: registry_requestWrapper distinct_TSet_insert)
  then show ?case using Cons.IH r by simp
qed

lemma distinct_reachable: "distinct (registry k (requestAll frag reqs emptyPrelude))"
  by (rule distinct_requestAll) (simp add: registry_emptyPrelude)

lemma set_registry_requestAll:
  "set (registry k (requestAll frag reqs p)) = set (registry k p) \<union> {ty. (k, ty) \<in> set reqs}"
proof (induction reqs arbitrary: p)
  case Nil
  then show ?case by simp
next
  case (Cons r reqs)
  obtain k' ty where r: "r = (k', ty)" by (cases r)
  show ?case
    unfolding r requestAll.simps Cons.IH
    by (auto simp: registry_requestWrapper set_TSet_insert)
qed

lemma count_list_distinct: "distinct xs \<Longrightarrow> count_list xs x = (if x \<in> set xs then 1 else 0)"
  by (induction xs) auto

lemma count_list_map_Pair:
  "count_list (map (Pair j) xs) (k, x) = (if j = k then count_list xs x else 0)"
  by (induction xs) auto

lemma count_preludeFunctions:
  "count_list (preludeFunctions p) (k, ty) = count_list (registry k p) ty"
  by (cases k) (simp_all add: preludeFunctions_def count_list_map_Pair)

text \<open>
  After any sequence of requests to a new prelude, a pair is visited by \<open>outputPrelude\<close>
  once if it was requested, however often, and not at all otherwise.
\<close>

lemma count_after_requests:
  "count_list (preludeFunctions (requestAll frag reqs emptyPrelude)) (k, ty)
     = (if (k, ty) \<in> set reqs then 1 else 0)"
  by (simp add: count_preludeFunctions count_list_distinct distinct_reachable
      set_registry_requestAll registry_emptyPrelude)

lemma output_two_types:
  "ty1 \<noteq> ty2 \<Longrightarrow>
   outputPrelude source (requestAll frag [(k, ty1), (k, ty2)] emptyPrelude) [] =
     [source k ty1, source k ty2]"
  by (cases k)
    (simp_all add: outputPrelude_def preludeFunctions_def request_defs emptyPrelude_def
      TSet_insert_def)

lemma output_same_twice:
  "outputPrelude source (requestAll frag [(k, ty), (k, ty)] emptyPrelude) [] = [source k ty]"
  by (cases k)
    (simp_all add: outputPrelude_def preludeFunctions_def request_defs emptyPrelude_def
      TSet_insert_def)

text \<open>
  C2. Requesting a wrapper is idempotent. In the prelude reached by any sequence \<open>reqs\<close> of
  requests, a second request for the same operation kind and operand type returns the
  same fragment pair as the first and leaves the prelude as the first left it, with one
  entry for the type in the set of the kind; whatever is requested later, \<open>outputPrelude\<close>
  visits the pair once, and after two requests for one pair to a new prelude it writes one
  function definition. Two different operand types under one operation kind are each
  visited once, and requested from a new prelude they give two function definitions, one
  for each type.
\<close>

theorem request_wrapper_idempotent:
  fixes frag :: "'t fragments" and source :: "WrapperKind \<Rightarrow> 't \<Rightarrow> string"
  shows
  "(let p0 = requestAll frag reqs emptyPrelude;
        r1 = requestWrapper frag k ty p0;
        r2 = requestWrapper frag k ty (snd r1)
    in fst r2 = fst r1 \<and> snd r2 = snd r1
       \<and> count_list (registry k (snd r2)) ty = 1
       \<and> count_list (preludeFunctions (requestAll frag later (snd r2))) (k, ty) = 1)
   \<and> outputPrelude source (requestAll frag [(k, ty), (k, ty)] emptyPrelude) [] = [source k ty]
   \<and> (ty1 \<noteq> ty2 \<longrightarrow>
        (let p2 = requestAll frag (reqs @ [(k, ty1), (k, ty2)]) emptyPrelude
         in count_list (preludeFunctions p2) (k, ty1) = 1
            \<and> count_list (preludeFunctions p2) (k, ty2) = 1)
        \<and> (let out = outputPrelude source (requestAll frag [(k, ty1), (k, ty2)] emptyPrelude) []
           in length out = 2 \<and> set out = {source k ty1, source k ty2}))"
proof -
  let ?p0 = "requestAll frag reqs emptyPrelude"
  let ?r1 = "requestWrapper frag k ty ?p0"
  let ?r2 = "requestWrapper frag k ty (snd ?r1)"
  have p1: "snd ?r1 = requestAll frag (reqs @ [(k, ty)]) emptyPrelude"
    by (simp add: requestAll_append)
  have same_frag: "fst ?r2 = fst ?r1"
    by (simp add: fst_requestWrapper)
  have same_state: "snd ?r2 = snd ?r1"
    by (rule requestWrapper_idem)
  have "count_list (preludeFunctions (snd ?r1)) (k, ty) = 1"
    unfolding p1 by (simp add: count_after_requests)
  then have one_entry: "count_list (registry k (snd ?r2)) ty = 1"
    by (simp add: same_state count_preludeFunctions)
  have "requestAll frag later (snd ?r2) = requestAll frag (reqs @ [(k, ty)] @ later) emptyPrelude"
    by (simp add: same_state requestAll_append)
  then have one_emitted:
    "count_list (preludeFunctions (requestAll frag later (snd ?r2))) (k, ty) = 1"
    by (simp add: count_after_requests)
  have two: "count_list (preludeFunctions
        (requestAll frag (reqs @ [(k, ty1), (k, ty2)]) emptyPrelude)) (k, ty1) = 1
      \<and> count_list (preludeFunctions
        (requestAll frag (reqs @ [(k, ty1), (k, ty2)]) emptyPrelude)) (k, ty2) = 1"
    by (simp add: count_after_requests)
  have out2: "ty1 \<noteq> ty2 \<longrightarrow>
      (let out = outputPrelude source (requestAll frag [(k, ty1), (k, ty2)] emptyPrelude) []
       in length out = 2 \<and> set out = {source k ty1, source k ty2})"
  proof
    assume "ty1 \<noteq> ty2"
    then have e: "outputPrelude source (requestAll frag [(k, ty1), (k, ty2)] emptyPrelude) []
        = [source k ty1, source k ty2]"
      by (rule output_two_types)
    show "let out = outputPrelude source (requestAll frag [(k, ty1), (k, ty2)] emptyPrelude) []
       in length out = 2 \<and> set out = {source k ty1, source k ty2}"
      unfolding Let_def e by simp
  qed
  show ?thesis
    using same_frag same_state one_entry one_emitted two out2
      output_same_twice [of source frag k ty]
    by (simp add: Let_def)
qed

theorem request_wrapper_idempotent_witness:
  "''int'' \<noteq> ''float''
   \<and> (let out = outputPrelude (\<lambda>k ty. ''fn '' @ ty)
        (requestAll (\<lambda>k ty. \<lparr>prefix = ty, suffix = '')''\<rparr>)
           [(PreIncrement, ''int''), (PreIncrement, ''float'')] emptyPrelude) []
      in length out = 2 \<and> set out = {''fn int'', ''fn float''})
   \<and> outputPrelude (\<lambda>k ty. ''fn '' @ ty)
        (requestAll (\<lambda>k ty. \<lparr>prefix = ty, suffix = '')''\<rparr>)
           [(PreIncrement, ''int''), (PreIncrement, ''int'')] emptyPrelude) []
       = [''fn int'']"
  using request_wrapper_idempotent [of "\<lambda>k ty. \<lparr>prefix = ty, suffix = '')''\<rparr>" "[]"
      PreIncrement "''int''" "[]" "\<lambda>k ty. ''fn '' @ ty" "''int''" "''float''"]
  by (simp add: Let_def request_defs emptyPrelude_def TSet_insert_def outputPrelude_def
      preludeFunctions_def)

end
